theory Spec2Isabelle
  imports Main
begin

section \<open>The Python object model the extension contract relies on\<close>

text \<open>
  The module \<^verbatim>\<open>extension.py\<close> declares a dataclass \<^verbatim>\<open>ExtensionResult\<close>, an abstract
  base class \<^verbatim>\<open>PoseVisExtensionBase\<close> with seven abstract methods, and a subclass
  \<^verbatim>\<open>PoseVisExtension\<close> that adds \<^verbatim>\<open>set_enabled\<close>.  Exceptions are values of type
  \<open>exc\<close>; every method returns the objects it was handed (as they are after the call)
  together with its outcome, so that a mutation is visible also when the call raises.
\<close>

datatype exc = NotImplementedError | TypeError | AttributeError

datatype pyval = PNone | PInt int | PBool bool | PFunction string

text \<open>
  A \<^verbatim>\<open>def\<close> in a class body, with its decorators and the parameters that follow
  \<^verbatim>\<open>self\<close> or \<^verbatim>\<open>cls\<close>.
\<close>

record method_decl =
  is_abstract :: bool
  is_classmethod :: bool
  params :: "string list"

type_synonym class_body = "(string \<times> method_decl) list"

text \<open>
  A class is its method resolution order: the bodies of the class and of its bases, the most
  derived first (single inheritance, as in the module).
\<close>

type_synonym klass = "class_body list"

fun mro_lookup :: "klass \<Rightarrow> string \<Rightarrow> method_decl option" where
  "mro_lookup [] n = None"
| "mro_lookup (b # bs) n = (case map_of b n of Some d \<Rightarrow> Some d | None \<Rightarrow> mro_lookup bs n)"

text \<open>
  \<^verbatim>\<open>ABCMeta\<close> computes \<^verbatim>\<open>__abstractmethods__\<close>: the names whose resolved definition still
  carries \<^verbatim>\<open>@abstractmethod\<close>.
\<close>

definition abstractmethods :: "klass \<Rightarrow> string list" where
  "abstractmethods k =
     filter (\<lambda>n. case mro_lookup k n of Some d \<Rightarrow> is_abstract d | None \<Rightarrow> False)
            (remdups (concat (map (map fst) k)))"

record pyobj =
  klass_of :: klass
  inst_dict :: "string \<rightharpoonup> pyval"

text \<open>
  The allocation step of calling a class: \<^verbatim>\<open>object.__new__\<close> raises \<^verbatim>\<open>TypeError\<close> when
  abstract methods remain, and otherwise gives an object of the class with an empty
  \<^verbatim>\<open>__dict__\<close>.
\<close>

definition instantiate :: "klass \<Rightarrow> exc + pyobj" where
  "instantiate k =
     (if abstractmethods k = [] then Inr \<lparr>klass_of = k, inst_dict = Map.empty\<rparr>
      else Inl TypeError)"

text \<open>
  Calling a class runs \<^verbatim>\<open>__init__\<close> on the allocated object.  None of the classes of the
  module defines \<^verbatim>\<open>__init__\<close>, so for them it is \<^verbatim>\<open>object.__init__\<close>, which stores
  nothing.  A derived class that binds \<^verbatim>\<open>__init__\<close> runs its own body instead; that body is
  the parameter \<open>init\<close>, unused when no class of the method resolution order binds the name.
\<close>

definition object_init :: "pyobj \<Rightarrow> pyobj \<times> (exc + unit)" where
  "object_init self = (self, Inr ())"

definition construct :: "klass \<Rightarrow> (pyobj \<Rightarrow> pyobj \<times> (exc + unit)) \<Rightarrow> exc + pyobj" where
  "construct k init =
     (case instantiate k of
        Inl e \<Rightarrow> Inl e
      | Inr obj \<Rightarrow>
          (case (if mro_lookup k ''__init__'' = None then object_init else init) obj of
             (obj', Inl e) \<Rightarrow> Inl e
           | (obj', Inr u) \<Rightarrow> Inr obj'))"


text \<open>
  Attribute access on an instance: the instance's \<^verbatim>\<open>__dict__\<close>, then the classes of the
  method resolution order, else \<^verbatim>\<open>AttributeError\<close>.
\<close>

definition getattr :: "pyobj \<Rightarrow> string \<Rightarrow> exc + pyval" where
  "getattr obj n =
     (case inst_dict obj n of
        Some v \<Rightarrow> Inr v
      | None \<Rightarrow> (case mro_lookup (klass_of obj) n of
                   Some d \<Rightarrow> Inr (PFunction n)
                 | None \<Rightarrow> Inl AttributeError))"

text \<open>
  Calling \<^verbatim>\<open>C.m(a1, ..., an)\<close> through the class object, with no instance: a classmethod
  receives the class as \<^verbatim>\<open>cls\<close> and takes the \<open>n\<close> arguments as its declared parameters;
  a plain function receives nothing implicitly, so its first argument is taken as \<^verbatim>\<open>self\<close>.
  A call whose argument count does not fit raises \<^verbatim>\<open>TypeError\<close> before the body runs.
\<close>

datatype receiver = BoundClass | FirstArgument

definition call_on_class :: "klass \<Rightarrow> string \<Rightarrow> nat \<Rightarrow> exc + receiver" where
  "call_on_class k n nargs =
     (case mro_lookup k n of
        None \<Rightarrow> Inl AttributeError
      | Some d \<Rightarrow>
          (if is_classmethod d
           then (if nargs = length (params d) then Inr BoundClass else Inl TypeError)
           else (if nargs = Suc (length (params d)) then Inr FirstArgument else Inl TypeError)))"

section \<open>\<^verbatim>\<open>ExtensionResult\<close>\<close>

text \<open>The dataclass has the single field \<^verbatim>\<open>data: Any\<close>; its payload type is a parameter.\<close>

record 'a ExtensionResult =
  data :: 'a

definition ExtensionResult_fields :: "string list" where
  "ExtensionResult_fields = [''data'']"

text \<open>The generated \<^verbatim>\<open>__init__(self, data)\<close>.\<close>

definition ExtensionResult_init :: "'a \<Rightarrow> 'a ExtensionResult" where
  "ExtensionResult_init d = \<lparr>data = d\<rparr>"

section \<open>\<^verbatim>\<open>PoseVisExtensionBase\<close>\<close>

definition PoseVisExtensionBase_body :: class_body where
  "PoseVisExtensionBase_body =
     [(''register_args'', \<lparr>is_abstract = True, is_classmethod = False, params = [''parser'']\<rparr>),
      (''check_enabled'', \<lparr>is_abstract = True, is_classmethod = False, params = [''args'']\<rparr>),
      (''setup'', \<lparr>is_abstract = True, is_classmethod = False, params = []\<rparr>),
      (''process_frame'', \<lparr>is_abstract = True, is_classmethod = False, params = [''frame'']\<rparr>),
      (''cleanup'', \<lparr>is_abstract = True, is_classmethod = False, params = []\<rparr>),
      (''draw_overlay'',
         \<lparr>is_abstract = True, is_classmethod = True, params = [''frame'', ''result'']\<rparr>),
      (''check_output'', \<lparr>is_abstract = True, is_classmethod = True, params = [''result'']\<rparr>)]"

definition PoseVisExtensionBase :: klass where
  "PoseVisExtensionBase = [PoseVisExtensionBase_body]"

text \<open>
  The bodies of the seven methods, as written in the base class: what a call that resolves
  to the base executes (\<^verbatim>\<open>super().m(...)\<close> in an override, or \<^verbatim>\<open>PoseVisExtensionBase.m(obj, ...)\<close>).
  The five instance methods take the object \<^verbatim>\<open>self\<close>, the two class methods the class
  \<^verbatim>\<open>cls\<close>.  The parser, the parsed arguments, the frame and the payload are opaque here.
\<close>

definition register_args ::
  "pyobj \<Rightarrow> 'parser \<Rightarrow> (pyobj \<times> 'parser) \<times> (exc + unit)" where
  "register_args self parser = ((self, parser), Inl NotImplementedError)"

definition check_enabled ::
  "pyobj \<Rightarrow> 'args \<Rightarrow> (pyobj \<times> 'args) \<times> (exc + bool)" where
  "check_enabled self args = ((self, args), Inl NotImplementedError)"

definition setup' :: "pyobj \<Rightarrow> pyobj \<times> (exc + unit)" where
  "setup' self = (self, Inr ())"

definition process_frame ::
  "pyobj \<Rightarrow> 'frame \<Rightarrow> (pyobj \<times> 'frame) \<times> (exc + 'a ExtensionResult)" where
  "process_frame self frame = ((self, frame), Inl NotImplementedError)"

definition cleanup :: "pyobj \<Rightarrow> pyobj \<times> (exc + unit)" where
  "cleanup self = (self, Inr ())"

definition draw_overlay ::
  "klass \<Rightarrow> 'frame \<Rightarrow> 'a ExtensionResult
     \<Rightarrow> ('frame \<times> 'a ExtensionResult) \<times> (exc + unit)" where
  "draw_overlay cls frame result = ((frame, result), Inl NotImplementedError)"

definition check_output ::
  "klass \<Rightarrow> 'a ExtensionResult \<Rightarrow> 'a ExtensionResult \<times> (exc + bool)" where
  "check_output cls result = (result, Inl NotImplementedError)"

section \<open>\<^verbatim>\<open>PoseVisExtension\<close>\<close>

text \<open>
  The class body holds the annotation \<^verbatim>\<open>extension_id: int\<close>, which binds no name in the
  class namespace, and the method \<^verbatim>\<open>set_enabled\<close>.
\<close>

definition PoseVisExtension_body :: class_body where
  "PoseVisExtension_body =
     [(''set_enabled'',
         \<lparr>is_abstract = False, is_classmethod = False, params = [''extension_id'']\<rparr>)]"

definition PoseVisExtension :: klass where
  "PoseVisExtension = [PoseVisExtension_body, PoseVisExtensionBase_body]"

definition set_enabled :: "pyobj \<Rightarrow> int \<Rightarrow> pyobj \<times> (exc + unit)" where
  "set_enabled self extension_id =
     (self\<lparr>inst_dict := (inst_dict self)(''extension_id'' \<mapsto> PInt extension_id)\<rparr>, Inr ())"

text \<open>A run of calls \<^verbatim>\<open>set_enabled(i1); ...; set_enabled(ik)\<close>, stopping at a raise.\<close>

fun set_enabled_seq :: "pyobj \<Rightarrow> int list \<Rightarrow> pyobj \<times> (exc + unit)" where
  "set_enabled_seq self [] = (self, Inr ())"
| "set_enabled_seq self (i # is) =
     (case set_enabled self i of
        (self', Inl e) \<Rightarrow> (self', Inl e)
      | (self', Inr u) \<Rightarrow> set_enabled_seq self' is)"

text \<open>
  A concrete extension class: a further class body on top of \<^verbatim>\<open>PoseVisExtension\<close>.
\<close>

definition derived_class :: "class_body \<Rightarrow> klass \<Rightarrow> klass" where
  "derived_class body base = body # base"

definition contract_operations :: "string list" where
  "contract_operations =
     [''register_args'', ''check_enabled'', ''setup'', ''process_frame'', ''cleanup'',
      ''draw_overlay'', ''check_output'']"

text \<open>
  A class body overriding each of the seven operations without \<^verbatim>\<open>@abstractmethod\<close>,
  keeping the signatures of the base.
\<close>

definition implement_all :: class_body where
  "implement_all = map (\<lambda>(n, d). (n, d\<lparr>is_abstract := False\<rparr>)) PoseVisExtensionBase_body"

section \<open>The \<^verbatim>\<open>check_enabled\<close> of a concrete extension\<close>

text \<open>
  Modelled from the spec: the \<^verbatim>\<open>check_enabled\<close> that a concrete extension implements.  The
  module holds only the abstract declaration; the implementations are in the extension
  modules, which are not part of it.  The contract describes the operation as a "pure
  predicate over parsed arguments deciding whether this extension participates in the run":
  \<open>p\<close> is that predicate, and the call returns its value on the arguments.
\<close>

definition check_enabled_impl ::
  "('args \<Rightarrow> bool) \<Rightarrow> pyobj \<Rightarrow> 'args \<Rightarrow> (pyobj \<times> 'args) \<times> (exc + bool)" where
  "check_enabled_impl p self args = ((self, args), Inr (p args))"

text \<open>
  The call \<^verbatim>\<open>obj.check_enabled(args)\<close>: the name is resolved in the class of the object.
  A declaration that still carries \<^verbatim>\<open>@abstractmethod\<close> is the stub of the base; any other
  is the implementation of the extension.
\<close>

definition call_check_enabled ::
  "('args \<Rightarrow> bool) \<Rightarrow> pyobj \<Rightarrow> 'args \<Rightarrow> (pyobj \<times> 'args) \<times> (exc + bool)" where
  "call_check_enabled p obj args =
     (case mro_lookup (klass_of obj) ''check_enabled'' of
        None \<Rightarrow> ((obj, args), Inl AttributeError)
      | Some d \<Rightarrow>
          (if is_abstract d then check_enabled obj args else check_enabled_impl p obj args))"

section \<open>Auxiliary facts\<close>

lemma implement_all_eval:
  "implement_all =
     [(''register_args'', \<lparr>is_abstract = False, is_classmethod = False, params = [''parser'']\<rparr>),
      (''check_enabled'', \<lparr>is_abstract = False, is_classmethod = False, params = [''args'']\<rparr>),
      (''setup'', \<lparr>is_abstract = False, is_classmethod = False, params = []\<rparr>),
      (''process_frame'', \<lparr>is_abstract = False, is_classmethod = False, params = [''frame'']\<rparr>),
      (''cleanup'', \<lparr>is_abstract = False, is_classmethod = False, params = []\<rparr>),
      (''draw_overlay'',
         \<lparr>is_abstract = False, is_classmethod = True, params = [''frame'', ''result'']\<rparr>),
      (''check_output'', \<lparr>is_abstract = False, is_classmethod = True, params = [''result'']\<rparr>)]"
  by (simp add: implement_all_def PoseVisExtensionBase_body_def)

lemma abstractmethods_implement_all:
  "abstractmethods (derived_class implement_all PoseVisExtension) = []"
  by (simp add: abstractmethods_def derived_class_def implement_all_eval PoseVisExtension_def
      PoseVisExtension_body_def PoseVisExtensionBase_body_def)


lemma contract_operation_abstract:
  assumes "m \<in> set contract_operations"
    and "base = PoseVisExtension \<or> base = PoseVisExtensionBase"
  shows "\<exists>d. mro_lookup base m = Some d \<and> is_abstract d"
  using assms
  by (auto simp add: contract_operations_def PoseVisExtension_def PoseVisExtension_body_def
      PoseVisExtensionBase_def PoseVisExtensionBase_body_def)

lemma contract_operation_named:
  assumes "m \<in> set contract_operations"
    and "base = PoseVisExtension \<or> base = PoseVisExtensionBase"
  shows "m \<in> set (concat (map (map fst) base))"
  using assms
  by (auto simp add: contract_operations_def PoseVisExtension_def PoseVisExtension_body_def
      PoseVisExtensionBase_def PoseVisExtensionBase_body_def)

lemma foldr_derived_class: "foldr derived_class bodies base = bodies @ base"
  by (induction bodies) (simp_all add: derived_class_def)

lemma mro_lookup_not_overridden:
  "\<forall>b \<in> set bodies. map_of b m = None \<Longrightarrow> mro_lookup (bodies @ base) m = mro_lookup base m"
  by (induction bodies) simp_all

lemma abstract_name_blocks:
  assumes "mro_lookup k m = Some d" and "is_abstract d"
    and "m \<in> set (concat (map (map fst) k))"
  shows "instantiate k = Inl TypeError"
proof -
  have "m \<in> set (abstractmethods k)"
    using assms by (simp add: abstractmethods_def)
  then have "abstractmethods k \<noteq> []"
    by auto
  then show ?thesis
    by (simp add: instantiate_def)
qed


lemma set_enabled_seq_components:
  "is \<noteq> [] \<Longrightarrow>
     snd (set_enabled_seq e is) = Inr ()
     \<and> klass_of (fst (set_enabled_seq e is)) = klass_of e
     \<and> inst_dict (fst (set_enabled_seq e is))
         = (inst_dict e)(''extension_id'' \<mapsto> PInt (last is))"
proof (induction "is" arbitrary: e)
  case Nil
  then show ?case by simp
next
  case (Cons i js)
  show ?case
  proof (cases "js = []")
    case True
    then show ?thesis by (simp add: set_enabled_def)
  next
    case False
    then show ?thesis
      using Cons.IH [OF False, of "fst (set_enabled e i)"]
      by (auto simp add: set_enabled_def fun_eq_iff)
  qed
qed




text \<open>
  A derived class that defines \<^verbatim>\<open>__init__\<close> has it run: what the body stores is in the
  new object.
\<close>

lemma construct_runs_init:
  "construct
     (derived_class
        ((''__init__'', \<lparr>is_abstract = False, is_classmethod = False, params = []\<rparr>)
           # implement_all)
        PoseVisExtension)
     (\<lambda>self. (self\<lparr>inst_dict := (inst_dict self)(''extension_id'' \<mapsto> PInt (- 1))\<rparr>,
              Inr ()))
   = Inr \<lparr>klass_of =
            derived_class
              ((''__init__'', \<lparr>is_abstract = False, is_classmethod = False, params = []\<rparr>)
                 # implement_all)
              PoseVisExtension,
          inst_dict = [''extension_id'' \<mapsto> PInt (- 1)]\<rparr>"
  by (simp add: construct_def instantiate_def abstractmethods_def derived_class_def
      implement_all_eval PoseVisExtension_def PoseVisExtension_body_def
      PoseVisExtensionBase_body_def)

lemma named_resolves:
  "m \<in> set (concat (map (map fst) k)) \<Longrightarrow> \<exists>d. mro_lookup k m = Some d"
proof (induction k)
  case Nil
  then show ?case by simp
next
  case (Cons b bs)
  show ?case
  proof (cases "map_of b m")
    case None
    then have "m \<notin> set (map fst b)"
      by (simp add: map_of_eq_None_iff)
    then show ?thesis
      using Cons None by simp
  next
    case (Some d)
    then show ?thesis by simp
  qed
qed

lemma concrete_resolves_concrete:
  assumes "abstractmethods k = []"
    and "m \<in> set (concat (map (map fst) k))"
    and "mro_lookup k m = Some d"
  shows "\<not> is_abstract d"
proof
  assume "is_abstract d"
  then have "m \<in> set (abstractmethods k)"
    using assms(2,3) by (simp add: abstractmethods_def)
  then show False
    using assms(1) by simp
qed

section \<open>Properties\<close>

text \<open>
  C1: every concrete extension type must implement all seven contract operations.  A class
  derived from \<^verbatim>\<open>PoseVisExtensionBase\<close> or \<^verbatim>\<open>PoseVisExtension\<close> through any chain of
  class bodies, none of which defines the operation \<open>m\<close>, cannot be instantiated: the call
  raises \<^verbatim>\<open>TypeError\<close> instead of producing an object.
\<close>

theorem missing_operation_not_instantiable:
  assumes "m \<in> set contract_operations"
    and "base = PoseVisExtension \<or> base = PoseVisExtensionBase"
    and "\<forall>b \<in> set bodies. map_of b m = None"
  shows "instantiate (foldr derived_class bodies base) = Inl TypeError"
proof -
  obtain d where d: "mro_lookup base m = Some d" "is_abstract d"
    using contract_operation_abstract [OF assms(1,2)] by blast
  have "mro_lookup (bodies @ base) m = Some d"
    using mro_lookup_not_overridden [OF assms(3)] d(1) by simp
  moreover have "m \<in> set (concat (map (map fst) (bodies @ base)))"
    using contract_operation_named [OF assms(1,2)] by simp
  ultimately show ?thesis
    using d(2) by (simp add: foldr_derived_class abstract_name_blocks)
qed

theorem missing_operation_not_instantiable_witness:
  "''cleanup'' \<in> set contract_operations
   \<and> map_of (filter (\<lambda>p. fst p \<noteq> ''cleanup'') implement_all) ''cleanup'' = None
   \<and> instantiate
        (foldr derived_class [filter (\<lambda>p. fst p \<noteq> ''cleanup'') implement_all] PoseVisExtension)
       = Inl TypeError"
proof -
  have m: "''cleanup'' \<in> set contract_operations"
    by (simp add: contract_operations_def)
  have b: "\<forall>b \<in> set [filter (\<lambda>p. fst p \<noteq> ''cleanup'') implement_all].
             map_of b ''cleanup'' = None"
    by (simp add: implement_all_eval)
  show ?thesis
    using m b missing_operation_not_instantiable [OF m _ b, of PoseVisExtension] by simp
qed

text \<open>
  C2: \<^verbatim>\<open>set_enabled(i)\<close> is a direct assignment.  After the call, reading
  \<^verbatim>\<open>extension_id\<close> on the instance gives \<open>i\<close>, and the call returns \<^verbatim>\<open>None\<close>.
\<close>

theorem set_enabled_assigns:
  "getattr (fst (set_enabled e i)) ''extension_id'' = Inr (PInt i)
   \<and> snd (set_enabled e i) = Inr ()"
  by (simp add: set_enabled_def getattr_def)

text \<open>
  C3, as stated, fails: \<^verbatim>\<open>set_enabled\<close> has no guard, so a second call reassigns the id.
  On a fresh instance, \<^verbatim>\<open>set_enabled(0)\<close> followed by \<^verbatim>\<open>set_enabled(1)\<close> changes
  \<^verbatim>\<open>extension_id\<close>.
\<close>

theorem extension_id_reassigned:
  "getattr
     (fst (set_enabled
        (fst (set_enabled
           \<lparr>klass_of = derived_class implement_all PoseVisExtension, inst_dict = Map.empty\<rparr>
           0))
        1))
     ''extension_id''
   \<noteq> getattr
       (fst (set_enabled
          \<lparr>klass_of = derived_class implement_all PoseVisExtension, inst_dict = Map.empty\<rparr>
          0))
       ''extension_id''
   \<and> getattr
       (fst (set_enabled
          (fst (set_enabled
             \<lparr>klass_of = derived_class implement_all PoseVisExtension, inst_dict = Map.empty\<rparr>
             0))
          1))
       ''extension_id''
     = Inr (PInt 1)"
  by (simp add: set_enabled_def getattr_def)

text \<open>
  C3, amended: \<^verbatim>\<open>set_enabled\<close> assigns \<^verbatim>\<open>extension_id\<close> on every call, a later call
  overwriting the earlier value; no other operation declared by the classes changes it:
  the five instance methods of the base leave \<^verbatim>\<open>extension_id\<close> as it was (the two class
  methods receive no instance).
\<close>

theorem extension_id_changed_only_by_set_enabled:
  "getattr (fst (fst (register_args e parser))) ''extension_id'' = getattr e ''extension_id''
   \<and> getattr (fst (fst (check_enabled e args))) ''extension_id'' = getattr e ''extension_id''
   \<and> getattr (fst (setup' e)) ''extension_id'' = getattr e ''extension_id''
   \<and> getattr (fst (fst (process_frame e frame))) ''extension_id'' = getattr e ''extension_id''
   \<and> getattr (fst (cleanup e)) ''extension_id'' = getattr e ''extension_id''
   \<and> getattr (fst (set_enabled (fst (set_enabled e i)) j)) ''extension_id'' = Inr (PInt j)"
  by (simp add: register_args_def check_enabled_def setup'_def process_frame_def cleanup_def
      set_enabled_def getattr_def)



text \<open>
  C5: \<^verbatim>\<open>ExtensionResult\<close> has exactly one field, \<^verbatim>\<open>data\<close>.  Projecting \<^verbatim>\<open>data\<close>
  from \<^verbatim>\<open>ExtensionResult(d)\<close> gives \<open>d\<close> back for every payload, and a result is
  nothing more than its payload.
\<close>

theorem ExtensionResult_single_field:
  "data (ExtensionResult_init d) = d
   \<and> ExtensionResult_fields = [''data'']
   \<and> r = ExtensionResult_init (data r)"
  by (simp add: ExtensionResult_init_def ExtensionResult_fields_def)

text \<open>
  C6: \<^verbatim>\<open>draw_overlay\<close> and \<^verbatim>\<open>check_output\<close> are class methods: called on the class
  with their explicit arguments only (frame and result, or result), the call binds the class
  and reaches the method.  The other five operations called on the class with their
  explicit arguments only raise \<^verbatim>\<open>TypeError\<close>; they bind only when an object is passed
  for \<^verbatim>\<open>self\<close>.
\<close>

theorem class_level_operations:
  assumes "k = PoseVisExtensionBase \<or> k = PoseVisExtension"
  shows "call_on_class k ''draw_overlay'' 2 = Inr BoundClass
       \<and> call_on_class k ''check_output'' 1 = Inr BoundClass
       \<and> call_on_class k ''register_args'' 1 = Inl TypeError
       \<and> call_on_class k ''check_enabled'' 1 = Inl TypeError
       \<and> call_on_class k ''setup'' 0 = Inl TypeError
       \<and> call_on_class k ''process_frame'' 1 = Inl TypeError
       \<and> call_on_class k ''cleanup'' 0 = Inl TypeError
       \<and> call_on_class k ''register_args'' 2 = Inr FirstArgument
       \<and> call_on_class k ''check_enabled'' 2 = Inr FirstArgument
       \<and> call_on_class k ''setup'' 1 = Inr FirstArgument
       \<and> call_on_class k ''process_frame'' 2 = Inr FirstArgument
       \<and> call_on_class k ''cleanup'' 1 = Inr FirstArgument"
  using assms
  by (auto simp add: call_on_class_def PoseVisExtensionBase_def PoseVisExtension_def
      PoseVisExtension_body_def PoseVisExtensionBase_body_def)

theorem class_level_operations_witness:
  "call_on_class PoseVisExtension ''draw_overlay'' 2 = Inr BoundClass
   \<and> call_on_class PoseVisExtension ''check_output'' 1 = Inr BoundClass
   \<and> call_on_class PoseVisExtension ''setup'' 0 = Inl TypeError
   \<and> call_on_class PoseVisExtension ''setup'' 1 = Inr FirstArgument"
  using class_level_operations [of PoseVisExtension] by simp

text \<open>
  C7: \<^verbatim>\<open>check_enabled\<close> is a pure predicate over the parsed arguments.  An extension
  instance is an object of a class derived from the base that has no abstract method left;
  \<^verbatim>\<open>check_enabled\<close> called on it reaches the implementation of the extension, returns the
  boolean the predicate gives on the arguments, and leaves the extension and the arguments
  as they were; a second call on the same arguments returns the same boolean.
\<close>

theorem check_enabled_pure_predicate:
  assumes "klass_of e = foldr derived_class bodies base"
    and "base = PoseVisExtension \<or> base = PoseVisExtensionBase"
    and "abstractmethods (klass_of e) = []"
  shows "call_check_enabled p e args = ((e, args), Inr (p args))
       \<and> call_check_enabled p (fst (fst (call_check_enabled p e args)))
                                (snd (fst (call_check_enabled p e args)))
           = ((e, args), Inr (p args))"
proof -
  have m: "''check_enabled'' \<in> set contract_operations"
    by (simp add: contract_operations_def)
  have n: "''check_enabled'' \<in> set (concat (map (map fst) (klass_of e)))"
    using contract_operation_named [OF m assms(2)] assms(1) by (simp add: foldr_derived_class)
  obtain d where d: "mro_lookup (klass_of e) ''check_enabled'' = Some d"
    using named_resolves [OF n] by blast
  have "\<not> is_abstract d"
    using concrete_resolves_concrete [OF assms(3) n d] .
  then have "call_check_enabled p e args = ((e, args), Inr (p args))" for args
    using d by (simp add: call_check_enabled_def check_enabled_impl_def)
  then show ?thesis
    by simp
qed

theorem check_enabled_pure_predicate_witness:
  "call_check_enabled (\<lambda>a. ''use_e'' \<in> set a)
     \<lparr>klass_of = derived_class implement_all PoseVisExtension, inst_dict = Map.empty\<rparr>
     [''use_e'']
   = ((\<lparr>klass_of = derived_class implement_all PoseVisExtension, inst_dict = Map.empty\<rparr>,
       [''use_e'']), Inr True)
   \<and> call_check_enabled (\<lambda>a. ''use_e'' \<in> set a)
       \<lparr>klass_of = derived_class implement_all PoseVisExtension, inst_dict = Map.empty\<rparr>
       []
     = ((\<lparr>klass_of = derived_class implement_all PoseVisExtension, inst_dict = Map.empty\<rparr>,
         []), Inr False)"
proof -
  let ?e = "\<lparr>klass_of = derived_class implement_all PoseVisExtension,
              inst_dict = Map.empty\<rparr>"
  have k: "klass_of ?e = foldr derived_class [implement_all] PoseVisExtension"
    by simp
  have a: "abstractmethods (klass_of ?e) = []"
    by (simp add: abstractmethods_implement_all)
  show ?thesis
    using check_enabled_pure_predicate [OF k _ a, of "\<lambda>a. ''use_e'' \<in> set a" "[''use_e'']"]
      check_enabled_pure_predicate [OF k _ a, of "\<lambda>a. ''use_e'' \<in> set a" "[]"]
    by simp
qed

text \<open>
  C8: for every frame and every result, \<^verbatim>\<open>draw_overlay\<close> leaves the passed result
  unchanged: the result after the call equals the result before it.
\<close>

theorem draw_overlay_keeps_result:
  "snd (fst (draw_overlay cls frame result)) = result"
  by (simp add: draw_overlay_def)

text \<open>
  C9: the bodies of the abstract methods of the base class differ.  \<^verbatim>\<open>register_args\<close>,
  \<^verbatim>\<open>check_enabled\<close>, \<^verbatim>\<open>process_frame\<close>, \<^verbatim>\<open>draw_overlay\<close> and \<^verbatim>\<open>check_output\<close> raise
  \<^verbatim>\<open>NotImplementedError\<close> on every input; \<^verbatim>\<open>setup\<close> and \<^verbatim>\<open>cleanup\<close> are \<^verbatim>\<open>pass\<close>: they
  return \<^verbatim>\<open>None\<close> normally and leave the instance as it was, so a subclass that delegates
  to them gets no failure.
\<close>

theorem base_bodies_inconsistent:
  "snd (register_args self parser) = Inl NotImplementedError
   \<and> snd (check_enabled self args) = Inl NotImplementedError
   \<and> snd (process_frame self frame) = Inl NotImplementedError
   \<and> snd (draw_overlay cls frame result) = Inl NotImplementedError
   \<and> snd (check_output cls result) = Inl NotImplementedError
   \<and> setup' self = (self, Inr ())
   \<and> cleanup self = (self, Inr ())"
  by (simp add: register_args_def check_enabled_def process_frame_def draw_overlay_def
      check_output_def setup'_def cleanup_def)

text \<open>
  C10: \<^verbatim>\<open>set_enabled\<close> changes only \<^verbatim>\<open>extension_id\<close> and has no precondition.  Any
  non-empty run of calls \<^verbatim>\<open>set_enabled(i1), ..., set_enabled(ik)\<close> completes without a
  raise, leaves the class and every other attribute of the instance as they were, and ends
  with \<^verbatim>\<open>extension_id\<close> equal to the last argument.
\<close>

theorem set_enabled_seq_last:
  assumes "is \<noteq> []"
  shows "set_enabled_seq e is =
           (e\<lparr>inst_dict := (inst_dict e)(''extension_id'' \<mapsto> PInt (last is))\<rparr>, Inr ())"
proof -
  have "fst (set_enabled_seq e is) =
          e\<lparr>inst_dict := (inst_dict e)(''extension_id'' \<mapsto> PInt (last is))\<rparr>"
    using set_enabled_seq_components [OF assms, of e] by (intro pyobj.equality) simp_all
  moreover have "snd (set_enabled_seq e is) = Inr ()"
    using set_enabled_seq_components [OF assms, of e] by simp
  ultimately show ?thesis
    by (simp add: prod_eq_iff)
qed

theorem set_enabled_seq_last_witness:
  "[0, 1, 2] \<noteq> ([] :: int list)
   \<and> set_enabled_seq
        \<lparr>klass_of = derived_class implement_all PoseVisExtension, inst_dict = Map.empty\<rparr>
        [0, 1, 2]
       = (\<lparr>klass_of = derived_class implement_all PoseVisExtension,
           inst_dict = [''extension_id'' \<mapsto> PInt 2]\<rparr>, Inr ())"
  using set_enabled_seq_last
    [of "[0, 1, 2]"
        "\<lparr>klass_of = derived_class implement_all PoseVisExtension, inst_dict = Map.empty\<rparr>"]
  by simp

end
